theory Spec2Isabelle
  imports Complex_Main "HOL-Library.AList"
begin

section \<open>Sabine RT60 calculation of \<open>main.py\<close>\<close>

text \<open>
  Python numbers are modelled as \<^typ>\<open>real\<close>: the arithmetic of the script is read as exact
  arithmetic, floating-point rounding is not part of the model. A Python list of numbers is
  a \<^typ>\<open>real list\<close>, a dict is an association list in insertion order (its keys are
  distinct in Python; theorems that need this say so), and a raised exception is the left
  injection of a sum type.
\<close>

datatype error =
    ValueError
  | TypeError
  | InvalidGeometry
  | InvalidAbsorption
  | EmptyConfiguration
  | OutOfBoundsPosition

text \<open>
  \<^verbatim>\<open>length, width, height = room_dims\<close>: unpacking a sequence that does not hold exactly
  three items raises \<open>ValueError\<close>. The source's variable \<open>length\<close> is written
  \<open>len\<close>, since \<open>length\<close> is the list function of HOL.
\<close>

fun unpack3 :: "real list \<Rightarrow> error + real \<times> real \<times> real" where
  "unpack3 [len, width, height] = Inr (len, width, height)"
| "unpack3 _ = Inl ValueError"

definition compute_room_volume :: "real list \<Rightarrow> error + real" where
  "compute_room_volume room_dims =
     (case unpack3 room_dims of
        Inl e \<Rightarrow> Inl e
      | Inr (len, width, height) \<Rightarrow> Inr (len * width * height))"

definition compute_surface_areas :: "real list \<Rightarrow> error + real list" where
  "compute_surface_areas room_dims =
     (case unpack3 room_dims of
        Inl e \<Rightarrow> Inl e
      | Inr (len, width, height) \<Rightarrow>
          Inr [len * width, len * width,
               len * height, len * height,
               width * height, width * height])"

text \<open>
  \<^verbatim>\<open>sum(area * alpha for area, alpha in zip(surface_areas, coeffs))\<close>: \<open>zip\<close> stops at the
  shorter of its two arguments.
\<close>

definition total_absorption :: "real list \<Rightarrow> real list \<Rightarrow> real" where
  "total_absorption surface_areas coeffs =
     sum_list (map (\<lambda>(area, alpha). area * alpha) (zip surface_areas coeffs))"

text \<open>The right-hand side of the assignment to \<^verbatim>\<open>rt60_results[band]\<close>.\<close>

definition rt60_band :: "real \<Rightarrow> real list \<Rightarrow> real list \<Rightarrow> real" where
  "rt60_band volume surface_areas coeffs =
     (if total_absorption surface_areas coeffs > 0
      then 0.161 * (volume / total_absorption surface_areas coeffs)
      else 0)"

text \<open>
  The loop over \<^verbatim>\<open>abs_coeff.items()\<close>. Assigning to a key of a dict replaces the value of
  a key that is present and appends a key that is not, which is \<^const>\<open>AList.update\<close>.
\<close>

fun rt60_loop ::
  "real \<Rightarrow> real list \<Rightarrow> (string \<times> real list) list \<Rightarrow> (string \<times> real) list \<Rightarrow> (string \<times> real) list"
where
  "rt60_loop volume surface_areas [] rt60_results = rt60_results"
| "rt60_loop volume surface_areas ((band, coeffs) # items) rt60_results =
     rt60_loop volume surface_areas items
       (AList.update band (rt60_band volume surface_areas coeffs) rt60_results)"

definition calculate_rt60 ::
  "real list \<Rightarrow> (string \<times> real list) list \<Rightarrow> error + (string \<times> real) list"
where
  "calculate_rt60 room_dims abs_coeff =
     (case compute_room_volume room_dims of
        Inl e \<Rightarrow> Inl e
      | Inr volume \<Rightarrow>
          (case compute_surface_areas room_dims of
             Inl e \<Rightarrow> Inl e
           | Inr surface_areas \<Rightarrow> Inr (rt60_loop volume surface_areas abs_coeff [])))"

section \<open>Energy decay curve of \<open>plot_responses_and_rt60\<close>\<close>

text \<open>
  \<^verbatim>\<open>energy = np.cumsum(response[0]**2)[::-1]\<close>. \<open>np.cumsum\<close> returns the running sums
  from the first sample on, \<open>**2\<close> squares every sample and \<open>[::-1]\<close> reverses the
  array. The conversion to decibels that follows in the source is applied sample by sample
  to this array and is not modelled.
\<close>

fun cumsum_from :: "real \<Rightarrow> real list \<Rightarrow> real list" where
  "cumsum_from acc [] = []"
| "cumsum_from acc (x # xs) = (acc + x) # cumsum_from (acc + x) xs"

definition cumsum :: "real list \<Rightarrow> real list" where
  "cumsum xs = cumsum_from 0 xs"

definition energy :: "real list \<Rightarrow> real list" where
  "energy response0 = rev (cumsum (map (\<lambda>a. a ^ 2) response0))"

text \<open>
  The decay curve as the specification words it: at sample index \<open>t\<close> the sum of the
  squared amplitudes from \<open>t\<close> to the last sample.
\<close>

definition energy_from_the_end :: "real list \<Rightarrow> real list" where
  "energy_from_the_end response0 =
     map (\<lambda>t. sum_list (map (\<lambda>a. a ^ 2) (drop t response0))) [0..<length response0]"

section \<open>\<open>calculate_rt60\<close> on a store of objects\<close>

text \<open>
  Python passes \<open>room_dims\<close> and \<open>abs_coeff\<close> by reference. To say that a call leaves
  them as they were, the objects live in a store: a list of objects, an address being an
  index into it and allocation appending at the end. A dict of coefficient lists holds the
  addresses of its lists. Reading an address that does not hold an object of the expected
  kind is answered with \<open>TypeError\<close>.
\<close>

datatype pyobj =
    PyList "real list"
  | PyDict "(string \<times> nat) list"
  | PyResults "(string \<times> real) list"

type_synonym heap = "pyobj list"

definition load_list :: "heap \<Rightarrow> nat \<Rightarrow> error + real list" where
  "load_list hp a =
     (if a < length hp
      then (case hp ! a of PyList xs \<Rightarrow> Inr xs | _ \<Rightarrow> Inl TypeError)
      else Inl TypeError)"

definition load_dict :: "heap \<Rightarrow> nat \<Rightarrow> error + (string \<times> nat) list" where
  "load_dict hp a =
     (if a < length hp
      then (case hp ! a of PyDict items \<Rightarrow> Inr items | _ \<Rightarrow> Inl TypeError)
      else Inl TypeError)"

definition load_results :: "heap \<Rightarrow> nat \<Rightarrow> error + (string \<times> real) list" where
  "load_results hp a =
     (if a < length hp
      then (case hp ! a of PyResults d \<Rightarrow> Inr d | _ \<Rightarrow> Inl TypeError)
      else Inl TypeError)"

text \<open>The contents of a dict of coefficient lists: every list it refers to, read out.\<close>

fun load_items :: "heap \<Rightarrow> (string \<times> nat) list \<Rightarrow> error + (string \<times> real list) list" where
  "load_items hp [] = Inr []"
| "load_items hp ((band, c) # items) =
     (case load_list hp c of
        Inl e \<Rightarrow> Inl e
      | Inr coeffs \<Rightarrow>
          (case load_items hp items of
             Inl e \<Rightarrow> Inl e
           | Inr rest \<Rightarrow> Inr ((band, coeffs) # rest)))"

definition load_abs_coeff :: "heap \<Rightarrow> nat \<Rightarrow> error + (string \<times> real list) list" where
  "load_abs_coeff hp a =
     (case load_dict hp a of Inl e \<Rightarrow> Inl e | Inr items \<Rightarrow> load_items hp items)"

text \<open>\<^verbatim>\<open>rt60_results[band] = v\<close>: the one store of the function.\<close>

definition store_result :: "heap \<Rightarrow> nat \<Rightarrow> string \<Rightarrow> real \<Rightarrow> error + heap" where
  "store_result hp r band v =
     (case load_results hp r of
        Inl e \<Rightarrow> Inl e
      | Inr d \<Rightarrow> Inr (hp[r := PyResults (AList.update band v d)]))"

definition compute_room_volume_h :: "heap \<Rightarrow> nat \<Rightarrow> error + real" where
  "compute_room_volume_h hp room_dims =
     (case load_list hp room_dims of
        Inl e \<Rightarrow> Inl e
      | Inr dims \<Rightarrow> compute_room_volume dims)"

text \<open>\<open>compute_surface_areas\<close> builds a new list: it is allocated at the end of the store.\<close>

definition compute_surface_areas_h :: "heap \<Rightarrow> nat \<Rightarrow> (error + nat) \<times> heap" where
  "compute_surface_areas_h hp room_dims =
     (case load_list hp room_dims of
        Inl e \<Rightarrow> (Inl e, hp)
      | Inr dims \<Rightarrow>
          (case compute_surface_areas dims of
             Inl e \<Rightarrow> (Inl e, hp)
           | Inr areas \<Rightarrow> (Inr (length hp), hp @ [PyList areas])))"

text \<open>
  The loop over the items of \<open>abs_coeff\<close>, on the store. The items are those the dict holds
  when the loop starts; the body stores to \<open>rt60_results\<close> only.
\<close>

fun rt60_loop_h ::
  "real \<Rightarrow> nat \<Rightarrow> nat \<Rightarrow> (string \<times> nat) list \<Rightarrow> heap \<Rightarrow> error option \<times> heap"
where
  "rt60_loop_h volume surface_areas rt60_results [] hp = (None, hp)"
| "rt60_loop_h volume surface_areas rt60_results ((band, c) # items) hp =
     (case load_list hp surface_areas of
        Inl e \<Rightarrow> (Some e, hp)
      | Inr areas \<Rightarrow>
          (case load_list hp c of
             Inl e \<Rightarrow> (Some e, hp)
           | Inr coeffs \<Rightarrow>
               (case store_result hp rt60_results band (rt60_band volume areas coeffs) of
                  Inl e \<Rightarrow> (Some e, hp)
                | Inr hp' \<Rightarrow> rt60_loop_h volume surface_areas rt60_results items hp')))"

definition calculate_rt60_h :: "heap \<Rightarrow> nat \<Rightarrow> nat \<Rightarrow> (error + nat) \<times> heap" where
  "calculate_rt60_h hp room_dims abs_coeff =
     (case compute_room_volume_h hp room_dims of
        Inl e \<Rightarrow> (Inl e, hp)
      | Inr volume \<Rightarrow>
          (case compute_surface_areas_h hp room_dims of
             (Inl e, hp1) \<Rightarrow> (Inl e, hp1)
           | (Inr surface_areas, hp1) \<Rightarrow>
               (let rt60_results = length hp1;
                    hp2 = hp1 @ [PyResults []]
                in (case load_dict hp2 abs_coeff of
                      Inl e \<Rightarrow> (Inl e, hp2)
                    | Inr items \<Rightarrow>
                        (case rt60_loop_h volume surface_areas rt60_results items hp2 of
                           (Some e, hp3) \<Rightarrow> (Inl e, hp3)
                         | (None, hp3) \<Rightarrow> (Inr rt60_results, hp3))))))"

text \<open>What the caller sees of a call: the exception, or the contents of the returned dict.\<close>

definition returned :: "(error + nat) \<times> heap \<Rightarrow> error + (string \<times> real) list" where
  "returned out =
     (case fst out of Inl e \<Rightarrow> Inl e | Inr r \<Rightarrow> load_results (snd out) r)"

section \<open>The facade \<open>image_source_method\<close>\<close>

text \<open>
  The module \<open>acoustics\<close> that defines \<open>RoomAcoustics.image_source_method\<close> is not among
  the sources; \<open>main.py\<close> only calls it. The definitions of this section follow the
  specification (sections 3, 4.5 and 7).
\<close>

type_synonym point = "real \<times> real \<times> real"

text \<open>
  Modelled from the spec: SimulationConfig of section 3, with the fields of the input
  configuration of section 6. The fields carry the prefix \<open>cfg_\<close>.
\<close>

record config =
  cfg_room_dims :: point
  cfg_source_positions :: "point list"
  cfg_receiver_positions :: "point list"
  cfg_abs_coeff :: "(string \<times> real list) list"
  cfg_max_order :: nat

text \<open>Modelled from the spec: the invariant of RoomGeometry, all three dimensions positive.\<close>

definition valid_geometry :: "point \<Rightarrow> bool" where
  "valid_geometry dims = (case dims of (l, w, h) \<Rightarrow> 0 < l \<and> 0 < w \<and> 0 < h)"

text \<open>
  Modelled from the spec: the invariant of AbsorptionSpec, exactly six coefficients for each
  band, each in \<open>[0, 1]\<close>.
\<close>

definition valid_absorption :: "(string \<times> real list) list \<Rightarrow> bool" where
  "valid_absorption abs_coeff =
     list_all (\<lambda>(band, coeffs). length coeffs = 6 \<and> list_all (\<lambda>a. 0 \<le> a \<and> a \<le> 1) coeffs)
       abs_coeff"

text \<open>
  Modelled from the spec: the invariant of SourcePosition and ReceiverPosition, every
  coordinate between 0 and the dimension of its axis, the boundary included.
\<close>

definition in_room :: "point \<Rightarrow> point \<Rightarrow> bool" where
  "in_room dims p =
     (case dims of (l, w, h) \<Rightarrow>
        (case p of (x, y, z) \<Rightarrow> 0 \<le> x \<and> x \<le> l \<and> 0 \<le> y \<and> y \<le> w \<and> 0 \<le> z \<and> z \<le> h))"

text \<open>
  Modelled from the spec: the validation of section 7, done before any simulation work. The
  spec names the four error kinds and does not say which is reported when several apply;
  the order below is one choice.
\<close>

definition validate :: "config \<Rightarrow> error option" where
  "validate cfg =
     (if \<not> valid_geometry (cfg_room_dims cfg) then Some InvalidGeometry
      else if \<not> valid_absorption (cfg_abs_coeff cfg) then Some InvalidAbsorption
      else if cfg_source_positions cfg = [] \<or> cfg_receiver_positions cfg = []
        then Some EmptyConfiguration
      else if \<not> list_all (in_room (cfg_room_dims cfg))
                 (cfg_source_positions cfg @ cfg_receiver_positions cfg)
        then Some OutOfBoundsPosition
      else None)"

text \<open>
  Modelled from the spec: the contributions of the sources are summed, sample by sample,
  into the buffer of one receiver, which starts as \<open>buffer_length\<close> zeros.
\<close>

definition accumulate :: "nat \<Rightarrow> real list list \<Rightarrow> real list" where
  "accumulate buffer_length contributions =
     foldl (\<lambda>buffer c. map2 (+) buffer c) (replicate buffer_length 0) contributions"

text \<open>
  Modelled from the spec: the response of one receiver in one band. The chain of sections
  4.2 to 4.4 (enumeration of the virtual sources of one source, attenuation, synthesis of a
  buffer) is the parameter \<open>pipeline\<close>: the spec leaves its pulse kernel, its sample rate
  and its guard \<open>epsilon\<close> open, and none of the properties below depends on them.
\<close>

definition receiver_response ::
  "(config \<Rightarrow> bool \<Rightarrow> point \<Rightarrow> point \<Rightarrow> string \<Rightarrow> real list) \<Rightarrow> nat \<Rightarrow> config \<Rightarrow> bool
     \<Rightarrow> string \<Rightarrow> point \<Rightarrow> real list"
where
  "receiver_response pipeline buffer_length cfg enhanced band receiver =
     accumulate buffer_length
       (map (\<lambda>source. pipeline cfg enhanced source receiver band) (cfg_source_positions cfg))"

text \<open>
  Modelled from the spec: \<open>image_source_method\<close> of section 4.5; the module that defines it
  is missing. It validates, then returns for each band of \<open>abs_coeff\<close> the responses of
  the receivers.
\<close>

definition image_source_method ::
  "(config \<Rightarrow> bool \<Rightarrow> point \<Rightarrow> point \<Rightarrow> string \<Rightarrow> real list) \<Rightarrow> nat \<Rightarrow> config \<Rightarrow> bool
     \<Rightarrow> error + (string \<times> real list list) list"
where
  "image_source_method pipeline buffer_length cfg enhanced =
     (case validate cfg of
        Some e \<Rightarrow> Inl e
      | None \<Rightarrow>
          Inr (map (\<lambda>(band, coeffs).
                      (band, map (receiver_response pipeline buffer_length cfg enhanced band)
                               (cfg_receiver_positions cfg)))
                 (cfg_abs_coeff cfg)))"

text \<open>
  \<open>simulate_acoustics\<close> of \<open>main.py\<close>: the call
  \<^verbatim>\<open>acoustics_simulator.image_source_method(enhanced=True)\<close>. The simulator object is the
  configuration it was built from, together with the parameters of the engine.
\<close>

definition simulate_acoustics ::
  "(config \<Rightarrow> bool \<Rightarrow> point \<Rightarrow> point \<Rightarrow> string \<Rightarrow> real list) \<Rightarrow> nat \<Rightarrow> config
     \<Rightarrow> error + (string \<times> real list list) list"
where
  "simulate_acoustics pipeline buffer_length cfg =
     image_source_method pipeline buffer_length cfg True"

section \<open>Geometry\<close>

lemma compute_room_volume_triple:
  "compute_room_volume [l, w, h] = Inr (l * w * h)"
  by (simp add: compute_room_volume_def)

lemma compute_surface_areas_triple:
  "compute_surface_areas [l, w, h] = Inr [l * w, l * w, l * h, l * h, w * h, w * h]"
  by (simp add: compute_surface_areas_def)

text \<open>
  Claim C3. For a room of dimensions \<open>(l, w, h)\<close> the six areas returned by
  \<open>compute_surface_areas\<close> add up to \<open>2 (l w + l h + w h)\<close>. The equation holds for all
  reals, in particular for positive dimensions.
\<close>

theorem surface_areas_sum:
  "\<exists>areas. compute_surface_areas [l, w, h] = Inr areas
     \<and> length areas = 6
     \<and> sum_list areas = 2 * (l * w + l * h + w * h)"
  by (simp add: compute_surface_areas_def algebra_simps)

section \<open>The loop of \<open>calculate_rt60\<close>\<close>

lemma update_fresh:
  "k \<notin> fst ` set al \<Longrightarrow> AList.update k v al = al @ [(k, v)]"
  by (induction al) auto

text \<open>
  With distinct band names every assignment of the loop appends: the result lists the bands
  in the order of \<open>abs_coeff\<close>, each with the value of its own coefficients.
\<close>

lemma rt60_loop_distinct:
  "distinct (map fst acc @ map fst items) \<Longrightarrow>
   rt60_loop V A items acc = acc @ map (\<lambda>(band, coeffs). (band, rt60_band V A coeffs)) items"
proof (induction items arbitrary: acc)
  case Nil
  then show ?case by simp
next
  case (Cons p items)
  obtain band coeffs where p: "p = (band, coeffs)" by (cases p)
  have fresh: "band \<notin> fst ` set acc" using Cons.prems by (auto simp: p)
  have "distinct (map fst (acc @ [(band, rt60_band V A coeffs)]) @ map fst items)"
    using Cons.prems by (auto simp: p)
  then show ?case
    using Cons.IH [of "acc @ [(band, rt60_band V A coeffs)]"]
    by (simp add: p update_fresh [OF fresh])
qed

lemma total_absorption_nth:
  "total_absorption A cs = (\<Sum>i<min (length A) (length cs). A ! i * cs ! i)"
  unfolding total_absorption_def
  by (simp add: sum_list_sum_nth atLeast0LessThan)

lemma total_absorption_six:
  "length cs = 6 \<Longrightarrow>
   total_absorption [a0, a1, a2, a3, a4, a5] cs =
     a0 * cs ! 0 + a1 * cs ! 1 + a2 * cs ! 2 + a3 * cs ! 3 + a4 * cs ! 4 + a5 * cs ! 5"
  by (simp add: total_absorption_nth numeral_eq_Suc)

lemma calculate_rt60_triple:
  assumes "distinct (map fst abs_coeff)"
  shows "calculate_rt60 [l, w, h] abs_coeff =
     Inr (map (\<lambda>(band, coeffs).
                 (band, rt60_band (l * w * h) [l * w, l * w, l * h, l * h, w * h, w * h] coeffs))
            abs_coeff)"
  using rt60_loop_distinct [of "[]" abs_coeff] assms
  by (simp add: calculate_rt60_def compute_room_volume_triple compute_surface_areas_triple)

lemma map_of_map_band:
  assumes "distinct (map fst al)" and "(k, v) \<in> set al"
  shows "map_of (map (\<lambda>(k, v). (k, f v)) al) k = Some (f v)"
  using assms by (simp add: map_of_map)

lemma map_of_filter_other:
  "k' \<noteq> k \<Longrightarrow> map_of (filter (\<lambda>p. fst p \<noteq> k) al) k' = map_of al k'"
  by (induction al) auto

text \<open>
  Claim C1. For a room \<open>(l, w, h)\<close> and a band of \<open>abs_coeff\<close> with six coefficients whose
  total absorption, the sum over the six walls of wall area times coefficient, is positive,
  \<open>calculate_rt60\<close> returns for that band \<open>0.161 * (l * w * h) / total\<close>, and the volume
  it uses is \<open>l * w * h\<close>. The wall areas are those \<open>compute_surface_areas\<close> returns. The
  statement does not need the dimensions to be positive, so it covers the positive ones.
\<close>

theorem calculate_rt60_sabine:
  assumes "distinct (map fst abs_coeff)"
    and "(band, coeffs) \<in> set abs_coeff"
    and "length coeffs = 6"
    and "compute_surface_areas [l, w, h] = Inr areas"
    and "0 < (\<Sum>i<6. areas ! i * coeffs ! i)"
  shows "compute_room_volume [l, w, h] = Inr (l * w * h) \<and>
    (\<exists>res. calculate_rt60 [l, w, h] abs_coeff = Inr res \<and>
       map_of res band = Some (0.161 * (l * w * h) / (\<Sum>i<6. areas ! i * coeffs ! i)))"
proof -
  have areas: "areas = [l * w, l * w, l * h, l * h, w * h, w * h]"
    using assms(4) by (simp add: compute_surface_areas_triple)
  have "min (length areas) (length coeffs) = 6"
    using assms(3) by (simp add: areas)
  then have total: "total_absorption areas coeffs = (\<Sum>i<6. areas ! i * coeffs ! i)"
    by (simp only: total_absorption_nth)
  have band: "rt60_band (l * w * h) areas coeffs
          = 0.161 * (l * w * h) / (\<Sum>i<6. areas ! i * coeffs ! i)"
    using assms(5) by (simp add: rt60_band_def total)
  let ?res = "map (\<lambda>(band, coeffs). (band, rt60_band (l * w * h) areas coeffs)) abs_coeff"
  have "calculate_rt60 [l, w, h] abs_coeff = Inr ?res"
    by (simp only: calculate_rt60_triple [OF assms(1)] areas)
  moreover have "map_of ?res band = Some (rt60_band (l * w * h) areas coeffs)"
    by (rule map_of_map_band [OF assms(1,2)])
  ultimately show ?thesis
    by (simp only: band compute_room_volume_triple) blast
qed

theorem calculate_rt60_sabine_witness:
  "distinct (map fst [(''low'', [1/2, 1/2, 1/2, 1/2, 1/2, 1/2 :: real])]) \<and>
   compute_surface_areas [4, 3, 2] = Inr [12, 12, 8, 8, 6, 6] \<and>
   compute_room_volume [4, 3, 2] = Inr 24 \<and>
   (\<exists>res. calculate_rt60 [4, 3, 2] [(''low'', [1/2, 1/2, 1/2, 1/2, 1/2, 1/2])] = Inr res \<and>
      map_of res ''low'' = Some (0.161 * 24 / 26))"
proof -
  let ?cs = "[1/2, 1/2, 1/2, 1/2, 1/2, 1/2 :: real]"
  let ?as = "[12, 12, 8, 8, 6, 6 :: real]"
  have d: "distinct (map fst [(''low'', ?cs)])" by simp
  have m: "(''low'', ?cs) \<in> set [(''low'', ?cs)]" by simp
  have n: "length ?cs = 6" by simp
  have a: "compute_surface_areas [4, 3, 2] = Inr ?as"
    by (simp add: compute_surface_areas_def)
  have s: "(\<Sum>i<6. ?as ! i * ?cs ! i) = 26"
    by (simp add: numeral_eq_Suc)
  have p: "0 < (\<Sum>i<6. ?as ! i * ?cs ! i)" by (simp add: s)
  show ?thesis
    using calculate_rt60_sabine [OF d m n a p] d a by (simp add: s)
qed

lemma calculate_rt60_band_value:
  assumes "distinct (map fst abs_coeff)"
    and "(band, coeffs) \<in> set abs_coeff"
    and "compute_surface_areas [l, w, h] = Inr areas"
  shows "\<exists>res. calculate_rt60 [l, w, h] abs_coeff = Inr res \<and>
           map_of res band = Some (rt60_band (l * w * h) areas coeffs)"
proof -
  have areas: "areas = [l * w, l * w, l * h, l * h, w * h, w * h]"
    using assms(3) by (simp add: compute_surface_areas_triple)
  let ?res = "map (\<lambda>(band, coeffs). (band, rt60_band (l * w * h) areas coeffs)) abs_coeff"
  have "calculate_rt60 [l, w, h] abs_coeff = Inr ?res"
    by (simp only: calculate_rt60_triple [OF assms(1)] areas)
  moreover have "map_of ?res band = Some (rt60_band (l * w * h) areas coeffs)"
    by (rule map_of_map_band [OF assms(1,2)])
  ultimately show ?thesis by blast
qed

lemma total_absorption_areas:
  assumes "compute_surface_areas [l, w, h] = Inr areas"
  shows "total_absorption areas coeffs = (\<Sum>i<min 6 (length coeffs). areas ! i * coeffs ! i)"
proof -
  have "length areas = 6"
    using assms by (auto simp: compute_surface_areas_triple)
  then show ?thesis by (simp only: total_absorption_nth)
qed

section \<open>Wall order\<close>

text \<open>
  Claim C2, as stated, would have \<open>compute_surface_areas\<close> list the walls of the x axis
  first (\<open>width * height\<close> twice), then those of the y axis, then floor and ceiling. The
  source lists floor and ceiling first. For the room \<open>(4, 3, 2)\<close> the claimed list is
  \<open>[6, 6, 8, 8, 12, 12]\<close>, the returned one \<open>[12, 12, 8, 8, 6, 6]\<close>.
\<close>

theorem surface_areas_order_counterexample:
  "compute_surface_areas [4, 3, 2] \<noteq> Inr [3 * 2, 3 * 2, 4 * 2, 4 * 2, 4 * 3, 4 * 3]"
  by (simp add: compute_surface_areas_def)

text \<open>
  Claim C2, amended. \<open>compute_surface_areas\<close> returns the six areas in the order floor,
  ceiling (\<open>l * w\<close>), front, back (\<open>l * h\<close>), left, right (\<open>w * h\<close>), and the \<open>i\<close>-th
  coefficient of a band of six coefficients is multiplied with the \<open>i\<close>-th area of that
  order.
\<close>

theorem surface_areas_order:
  assumes "length coeffs = 6"
  shows "\<exists>areas. compute_surface_areas [l, w, h] = Inr areas
     \<and> areas = [l * w, l * w, l * h, l * h, w * h, w * h]
     \<and> total_absorption areas coeffs =
         l * w * coeffs ! 0 + l * w * coeffs ! 1 + l * h * coeffs ! 2
         + l * h * coeffs ! 3 + w * h * coeffs ! 4 + w * h * coeffs ! 5"
  using assms by (simp add: compute_surface_areas_triple total_absorption_six)

theorem surface_areas_order_witness:
  "length [1, 0, 0, 0, 0, 1/2 :: real] = 6 \<and>
   compute_surface_areas [4, 3, 2] = Inr [12, 12, 8, 8, 6, 6] \<and>
   total_absorption [12, 12, 8, 8, 6, 6] [1, 0, 0, 0, 0, 1/2] = 15"
  using surface_areas_order [of "[1, 0, 0, 0, 0, 1/2]" 4 3 2] by simp

section \<open>No validation in \<open>calculate_rt60\<close>\<close>

text \<open>
  Claim C4, as stated, would have a coefficient outside \<open>[0, 1]\<close> rejected with
  \<open>InvalidAbsorption\<close>. \<open>calculate_rt60\<close> has no such check: with the coefficient \<open>2\<close> on
  the floor of the room \<open>(4, 3, 2)\<close> it returns the value \<open>0.161 * (24 / 24)\<close>.
\<close>

theorem calculate_rt60_out_of_range_counterexample:
  "calculate_rt60 [4, 3, 2] [(''low'', [2, 0, 0, 0, 0, 0])] = Inr [(''low'', 0.161)]
   \<and> calculate_rt60 [4, 3, 2] [(''low'', [2, 0, 0, 0, 0, 0])] \<noteq> Inl InvalidAbsorption"
  by (simp add: calculate_rt60_def compute_room_volume_def compute_surface_areas_def
        rt60_band_def total_absorption_def)

text \<open>
  Claim C4, amended. For a band of six coefficients of which some lies outside \<open>[0, 1]\<close>,
  \<open>calculate_rt60\<close> raises nothing and returns for the band the value of Sabine's formula
  on the coefficients as they are given, unclamped: \<open>0.161 * (volume / total)\<close> when the
  total absorption is positive, \<open>0\<close> otherwise.
\<close>

theorem calculate_rt60_out_of_range:
  assumes "distinct (map fst abs_coeff)"
    and "(band, coeffs) \<in> set abs_coeff"
    and "length coeffs = 6"
    and "\<exists>alpha \<in> set coeffs. alpha < 0 \<or> 1 < alpha"
    and "compute_surface_areas [l, w, h] = Inr areas"
  shows "\<exists>res. calculate_rt60 [l, w, h] abs_coeff = Inr res \<and>
           map_of res band =
             Some (if 0 < (\<Sum>i<6. areas ! i * coeffs ! i)
                   then 0.161 * (l * w * h / (\<Sum>i<6. areas ! i * coeffs ! i))
                   else 0)"
proof -
  have total: "total_absorption areas coeffs = (\<Sum>i<6. areas ! i * coeffs ! i)"
    using total_absorption_areas [OF assms(5), of coeffs] assms(3) by simp
  have eq: "rt60_band (l * w * h) areas coeffs =
      (if 0 < (\<Sum>i<6. areas ! i * coeffs ! i)
       then 0.161 * (l * w * h / (\<Sum>i<6. areas ! i * coeffs ! i))
       else 0)"
    by (simp only: rt60_band_def total)
  from calculate_rt60_band_value [OF assms(1,2,5)] show ?thesis
    by (simp only: eq)
qed

theorem calculate_rt60_out_of_range_witness:
  "(\<exists>alpha \<in> set [2, 0, 0, 0, 0, 0 :: real]. alpha < 0 \<or> 1 < alpha) \<and>
   compute_surface_areas [4, 3, 2] = Inr [12, 12, 8, 8, 6, 6] \<and>
   (\<exists>res. calculate_rt60 [4, 3, 2] [(''low'', [2, 0, 0, 0, 0, 0])] = Inr res \<and>
      map_of res ''low'' = Some 0.161)"
proof -
  let ?cs = "[2, 0, 0, 0, 0, 0 :: real]"
  let ?as = "[12, 12, 8, 8, 6, 6 :: real]"
  have d: "distinct (map fst [(''low'', ?cs)])" by simp
  have m: "(''low'', ?cs) \<in> set [(''low'', ?cs)]" by simp
  have n: "length ?cs = 6" by simp
  have r: "\<exists>alpha \<in> set ?cs. alpha < 0 \<or> 1 < alpha" by simp
  have a: "compute_surface_areas [4, 3, 2] = Inr ?as"
    by (simp add: compute_surface_areas_def)
  have s: "(\<Sum>i<6. ?as ! i * ?cs ! i) = 24"
    by (simp add: numeral_eq_Suc)
  show ?thesis
    using calculate_rt60_out_of_range [OF d m n r a] r a by (simp add: s)
qed

text \<open>
  Claim C5, as stated, would have a band with other than six coefficients rejected with
  \<open>InvalidAbsorption\<close>. With five coefficients \<open>calculate_rt60\<close> returns a value computed
  from the first five walls: \<open>0.161 * (24 / 46) = 0.084\<close> for the room \<open>(4, 3, 2)\<close>.
\<close>

theorem calculate_rt60_wrong_count_counterexample:
  "calculate_rt60 [4, 3, 2] [(''low'', [1, 1, 1, 1, 1])] = Inr [(''low'', 0.084)]
   \<and> calculate_rt60 [4, 3, 2] [(''low'', [1, 1, 1, 1, 1])] \<noteq> Inl InvalidAbsorption"
  by (simp add: calculate_rt60_def compute_room_volume_def compute_surface_areas_def
        rt60_band_def total_absorption_def)

text \<open>
  Claim C5, amended. For a band whose coefficient sequence has \<open>n \<noteq> 6\<close> entries,
  \<open>calculate_rt60\<close> raises nothing: it pairs the first \<open>min 6 n\<close> coefficients with the
  first \<open>min 6 n\<close> walls, ignores coefficients beyond the sixth and leaves out the walls
  that have no coefficient, and returns the value of Sabine's formula on that sum.
\<close>

theorem calculate_rt60_wrong_count:
  assumes "distinct (map fst abs_coeff)"
    and "(band, coeffs) \<in> set abs_coeff"
    and "length coeffs \<noteq> 6"
    and "compute_surface_areas [l, w, h] = Inr areas"
  shows "\<exists>res. calculate_rt60 [l, w, h] abs_coeff = Inr res \<and>
           map_of res band =
             Some (if 0 < (\<Sum>i<min 6 (length coeffs). areas ! i * coeffs ! i)
                   then 0.161 * (l * w * h / (\<Sum>i<min 6 (length coeffs). areas ! i * coeffs ! i))
                   else 0)"
proof -
  have eq: "rt60_band (l * w * h) areas coeffs =
      (if 0 < (\<Sum>i<min 6 (length coeffs). areas ! i * coeffs ! i)
       then 0.161 * (l * w * h / (\<Sum>i<min 6 (length coeffs). areas ! i * coeffs ! i))
       else 0)"
    by (simp only: rt60_band_def total_absorption_areas [OF assms(4)])
  from calculate_rt60_band_value [OF assms(1,2,4)] show ?thesis
    by (simp only: eq)
qed

theorem calculate_rt60_wrong_count_witness:
  "length [1, 1, 1, 1, 1 :: real] \<noteq> 6 \<and>
   compute_surface_areas [4, 3, 2] = Inr [12, 12, 8, 8, 6, 6] \<and>
   (\<exists>res. calculate_rt60 [4, 3, 2] [(''low'', [1, 1, 1, 1, 1])] = Inr res \<and>
      map_of res ''low'' = Some (0.161 * (24 / (12 + 12 + 8 + 8 + 6))))"
proof -
  let ?cs = "[1, 1, 1, 1, 1 :: real]"
  let ?as = "[12, 12, 8, 8, 6, 6 :: real]"
  have d: "distinct (map fst [(''low'', ?cs)])" by simp
  have m: "(''low'', ?cs) \<in> set [(''low'', ?cs)]" by simp
  have n: "length ?cs \<noteq> 6" by simp
  have a: "compute_surface_areas [4, 3, 2] = Inr ?as"
    by (simp add: compute_surface_areas_def)
  have s: "(\<Sum>i<min 6 (length ?cs). ?as ! i * ?cs ! i) = 46"
    by (simp add: numeral_eq_Suc)
  show ?thesis
    using calculate_rt60_wrong_count [OF d m n a] a by (simp add: s)
qed

text \<open>
  Claim C6, as stated, would have a dimension that is not positive rejected with
  \<open>InvalidGeometry\<close> and no volume or area returned. For the room \<open>(0, 3, 2)\<close> the
  functions return a volume, six areas and an RT60 value.
\<close>

theorem geometry_nonpositive_counterexample:
  "compute_room_volume [0, 3, 2] = Inr 0
   \<and> compute_surface_areas [0, 3, 2] = Inr [0, 0, 0, 0, 6, 6]
   \<and> calculate_rt60 [0, 3, 2] [(''low'', [1, 1, 1, 1, 1, 1])] = Inr [(''low'', 0)]"
  by (simp add: calculate_rt60_def compute_room_volume_def compute_surface_areas_def
        rt60_band_def total_absorption_def)

text \<open>
  Claim C6, amended. For room dimensions \<open>(l, w, h)\<close> of which some is not positive, the
  geometry functions raise nothing: \<open>compute_room_volume\<close> returns \<open>l * w * h\<close>,
  \<open>compute_surface_areas\<close> returns the six products, and \<open>calculate_rt60\<close> returns a
  result.
\<close>

theorem geometry_nonpositive:
  assumes "l \<le> 0 \<or> w \<le> 0 \<or> h \<le> 0"
  shows "compute_room_volume [l, w, h] = Inr (l * w * h)
     \<and> compute_surface_areas [l, w, h] = Inr [l * w, l * w, l * h, l * h, w * h, w * h]
     \<and> (\<exists>res. calculate_rt60 [l, w, h] abs_coeff = Inr res)"
  by (simp add: compute_room_volume_triple compute_surface_areas_triple calculate_rt60_def)

theorem geometry_nonpositive_witness:
  "((0::real) \<le> 0 \<or> (3::real) \<le> 0 \<or> (2::real) \<le> 0) \<and>
   compute_room_volume [0, 3, 2] = Inr 0 \<and>
   compute_surface_areas [0, 3, 2] = Inr [0, 0, 0, 0, 6, 6] \<and>
   (\<exists>res. calculate_rt60 [0, 3, 2] [(''low'', [1, 1, 1, 1, 1, 1])] = Inr res)"
  using geometry_nonpositive [of 0 3 2 "[(''low'', [1, 1, 1, 1, 1, 1])]"] by simp

section \<open>Bands without absorption\<close>

text \<open>
  Claim C9. For a band whose total absorption is not positive, \<open>calculate_rt60\<close> returns
  \<open>0\<close> for that band, without division and without an exception, and every other band
  has the value it has when the call is made without that band.
\<close>

theorem calculate_rt60_zero_total:
  assumes "distinct (map fst abs_coeff)"
    and "(band, coeffs) \<in> set abs_coeff"
    and "compute_surface_areas [l, w, h] = Inr areas"
    and "total_absorption areas coeffs \<le> 0"
  shows "\<exists>res rest. calculate_rt60 [l, w, h] abs_coeff = Inr res
     \<and> map_of res band = Some 0
     \<and> calculate_rt60 [l, w, h] (filter (\<lambda>p. fst p \<noteq> band) abs_coeff) = Inr rest
     \<and> (\<forall>band'. band' \<noteq> band \<longrightarrow> map_of res band' = map_of rest band')"
proof -
  let ?f = "\<lambda>(band, coeffs).
     (band, rt60_band (l * w * h) [l * w, l * w, l * h, l * h, w * h, w * h] coeffs)"
  let ?others = "filter (\<lambda>p. fst p \<noteq> band) abs_coeff"
  have areas: "areas = [l * w, l * w, l * h, l * h, w * h, w * h]"
    using assms(3) by (simp add: compute_surface_areas_triple)
  have d: "distinct (map fst ?others)"
    using assms(1) by (simp add: distinct_map_filter)
  have res: "calculate_rt60 [l, w, h] abs_coeff = Inr (map ?f abs_coeff)"
    by (rule calculate_rt60_triple [OF assms(1)])
  have rest: "calculate_rt60 [l, w, h] ?others = Inr (map ?f ?others)"
    by (rule calculate_rt60_triple [OF d])
  have "map_of (map ?f abs_coeff) band = Some (rt60_band (l * w * h) areas coeffs)"
    unfolding areas by (rule map_of_map_band [OF assms(1,2)])
  then have zero: "map_of (map ?f abs_coeff) band = Some 0"
    using assms(4) by (simp add: rt60_band_def)
  have "map_of (map ?f abs_coeff) band' = map_of (map ?f ?others) band'"
    if "band' \<noteq> band" for band'
    using that by (simp add: map_of_map map_of_filter_other)
  then show ?thesis using res rest zero by blast
qed

theorem calculate_rt60_zero_total_witness:
  "total_absorption [12, 12, 8, 8, 6, 6] [0, 0, 0, 0, 0, 0] \<le> 0 \<and>
   (\<exists>res rest.
      calculate_rt60 [4, 3, 2]
        [(''low'', [0, 0, 0, 0, 0, 0]), (''mid'', [1/2, 1/2, 1/2, 1/2, 1/2, 1/2])] = Inr res
      \<and> map_of res ''low'' = Some 0
      \<and> calculate_rt60 [4, 3, 2] [(''mid'', [1/2, 1/2, 1/2, 1/2, 1/2, 1/2])] = Inr rest
      \<and> map_of res ''mid'' = map_of rest ''mid'')"
proof -
  let ?z = "[0, 0, 0, 0, 0, 0 :: real]"
  let ?cs = "[1/2, 1/2, 1/2, 1/2, 1/2, 1/2 :: real]"
  let ?ac = "[(''low'', ?z), (''mid'', ?cs)]"
  let ?as = "[12, 12, 8, 8, 6, 6 :: real]"
  have d: "distinct (map fst ?ac)" by simp
  have m: "(''low'', ?z) \<in> set ?ac" by simp
  have a: "compute_surface_areas [4, 3, 2] = Inr ?as"
    by (simp add: compute_surface_areas_def)
  have t: "total_absorption ?as ?z \<le> 0"
    by (simp add: total_absorption_def)
  have f: "filter (\<lambda>p. fst p \<noteq> ''low'') ?ac = [(''mid'', ?cs)]" by simp
  from calculate_rt60_zero_total [OF d m a t]
  obtain res rest where
    "calculate_rt60 [4, 3, 2] ?ac = Inr res" "map_of res ''low'' = Some 0"
    "calculate_rt60 [4, 3, 2] [(''mid'', ?cs)] = Inr rest"
    "\<forall>band'. band' \<noteq> ''low'' \<longrightarrow> map_of res band' = map_of rest band'"
    unfolding f by blast
  moreover from this have "map_of res ''mid'' = map_of rest ''mid''" by simp
  ultimately show ?thesis using t by blast
qed

section \<open>Energy decay\<close>

lemma cumsum_from_length [simp]: "length (cumsum_from acc xs) = length xs"
  by (induction xs arbitrary: acc) auto

lemma cumsum_from_nth:
  "i < length xs \<Longrightarrow> cumsum_from acc xs ! i = acc + sum_list (take (Suc i) xs)"
proof (induction xs arbitrary: acc i)
  case Nil
  then show ?case by simp
next
  case (Cons x xs)
  then show ?case by (cases i) (auto simp: add.assoc)
qed

lemma energy_length: "length (energy a) = length a"
  by (simp add: energy_def cumsum_def)

text \<open>What the source computes at sample \<open>t\<close>: the energy of the first \<open>n - t\<close> samples.\<close>

lemma energy_nth:
  assumes "t < length a"
  shows "energy a ! t = sum_list (map (\<lambda>x. x ^ 2) (take (length a - t) a))"
proof -
  have "energy a ! t = cumsum (map (\<lambda>x. x ^ 2) a) ! (length a - Suc t)"
    using assms by (simp add: energy_def rev_nth cumsum_def)
  also have "\<dots> = sum_list (take (Suc (length a - Suc t)) (map (\<lambda>x. x ^ 2) a))"
    using assms by (simp add: cumsum_def cumsum_from_nth)
  also have "Suc (length a - Suc t) = length a - t"
    using assms by simp
  finally show ?thesis by (simp add: take_map)
qed

text \<open>
  Claim C7 says that the value of the decay curve at sample \<open>t\<close> is the sum of the squared
  amplitudes from \<open>t\<close> to the end. The source takes the running sums from the start and
  reverses them, so its value at \<open>t\<close> is the sum of the first \<open>n - t\<close> squares. For the
  samples \<open>[1, 2, 3]\<close> it computes \<open>[14, 5, 1]\<close>; the sums from the end are
  \<open>[14, 13, 9]\<close>.
\<close>

theorem energy_decay_reversed_prefix_sums:
  "energy [1, 2, 3] = [14, 5, 1]
   \<and> energy_from_the_end [1, 2, 3] = [14, 13, 9]
   \<and> energy [1, 2, 3] ! 1 \<noteq> energy_from_the_end [1, 2, 3] ! 1"
  by (simp add: energy_def cumsum_def energy_from_the_end_def upt_rec)

section \<open>\<open>calculate_rt60\<close> reads its arguments and writes a new dict\<close>

lemma load_list_append:
  "a < length hp \<Longrightarrow> load_list (hp @ ext) a = load_list hp a"
  by (simp add: load_list_def nth_append)

lemma load_dict_append:
  "a < length hp \<Longrightarrow> load_dict (hp @ ext) a = load_dict hp a"
  by (simp add: load_dict_def nth_append)

lemma load_list_InrD: "load_list hp a = Inr xs \<Longrightarrow> a < length hp \<and> hp ! a = PyList xs"
  by (auto simp: load_list_def split: if_splits pyobj.splits)

lemma load_dict_InrD: "load_dict hp a = Inr items \<Longrightarrow> a < length hp \<and> hp ! a = PyDict items"
  by (auto simp: load_dict_def split: if_splits pyobj.splits)

lemma load_results_InrD: "load_results hp a = Inr d \<Longrightarrow> a < length hp \<and> hp ! a = PyResults d"
  by (auto simp: load_results_def split: if_splits pyobj.splits)

lemma load_items_append:
  "load_items hp items = Inr ac \<Longrightarrow> load_items (hp @ ext) items = Inr ac"
proof (induction items arbitrary: ac)
  case Nil
  then show ?case by simp
next
  case (Cons p items)
  obtain band c where p: "p = (band, c)" by (cases p)
  from Cons.prems obtain coeffs rest where
    c: "load_list hp c = Inr coeffs" and r: "load_items hp items = Inr rest"
    and ac: "ac = (band, coeffs) # rest"
    by (auto simp: p split: sum.splits)
  have "c < length hp" using load_list_InrD [OF c] by simp
  then show ?case
    using Cons.IH [OF r] c by (simp add: p ac load_list_append)
qed

text \<open>A store to the results dict changes no list.\<close>

lemma load_list_store:
  assumes "load_results hp r = Inr d0"
  shows "load_list (hp[r := PyResults d]) a = load_list hp a"
  using load_results_InrD [OF assms]
  by (cases "a = r") (simp_all add: load_list_def)

lemma load_items_store:
  assumes "load_results hp r = Inr d0"
  shows "load_items (hp[r := PyResults d]) items = load_items hp items"
  by (induction items) (auto simp: load_list_store [OF assms] split: sum.splits)

lemma load_results_store:
  assumes "load_results hp r = Inr d0"
  shows "load_results (hp[r := PyResults d]) r = Inr d"
  using load_results_InrD [OF assms] by (simp add: load_results_def)

lemma rt60_loop_h_refines:
  assumes "load_list hp surface_areas = Inr areas"
    and "load_results hp r = Inr acc"
    and "load_items hp items = Inr ac"
  shows "rt60_loop_h volume surface_areas r items hp =
           (None, hp[r := PyResults (rt60_loop volume areas ac acc)])"
  using assms
proof (induction items arbitrary: hp acc ac)
  case Nil
  have "hp ! r = PyResults acc"
    using load_results_InrD [OF Nil.prems(2)] by simp
  then have "hp[r := PyResults acc] = hp"
    by (metis list_update_id)
  then show ?case using Nil.prems(3) by auto
next
  case (Cons p items)
  obtain band c where p: "p = (band, c)" by (cases p)
  from Cons.prems(3) obtain coeffs rest where
    c: "load_list hp c = Inr coeffs" and r: "load_items hp items = Inr rest"
    and ac: "ac = (band, coeffs) # rest"
    by (auto simp: p split: sum.splits)
  let ?v = "rt60_band volume areas coeffs"
  let ?hp = "hp[r := PyResults (AList.update band ?v acc)]"
  have st: "store_result hp r band ?v = Inr ?hp"
    by (simp add: store_result_def Cons.prems(2))
  have "rt60_loop_h volume surface_areas r items ?hp =
          (None, ?hp[r := PyResults (rt60_loop volume areas rest (AList.update band ?v acc))])"
    by (rule Cons.IH)
       (simp_all add: load_list_store [OF Cons.prems(2)] load_items_store [OF Cons.prems(2)]
          load_results_store [OF Cons.prems(2)] Cons.prems(1) r)
  then show ?case
    by (simp add: p ac Cons.prems(1) c st)
qed

text \<open>Whatever the store holds, the loop writes at the address of the results dict only.\<close>

lemma store_result_frame:
  "store_result hp r band v = Inr hp' \<Longrightarrow> n \<le> r \<Longrightarrow> take n hp' = take n hp"
  by (auto simp: store_result_def split: sum.splits)

lemma rt60_loop_h_frame:
  "n \<le> r \<Longrightarrow> take n (snd (rt60_loop_h volume surface_areas r items hp)) = take n hp"
proof (induction items arbitrary: hp)
  case Nil
  then show ?case by simp
next
  case (Cons p items)
  obtain band c where p: "p = (band, c)" by (cases p)
  show ?case
    using Cons.IH [OF Cons.prems] store_result_frame [OF _ Cons.prems]
    by (auto simp: p split: sum.splits)
qed

lemma calculate_rt60_h_frame:
  "take (length hp) (snd (calculate_rt60_h hp room_dims abs_coeff)) = hp"
proof -
  have loop: "take (length hp) (snd (rt60_loop_h V sa (Suc (length hp)) items (hp @ ext))) = hp"
    for V sa items ext
    using rt60_loop_h_frame [of "length hp" "Suc (length hp)" V sa items "hp @ ext"] by simp
  have loop': "take (length hp) hp3 = hp"
    if "rt60_loop_h V sa (Suc (length hp)) items (hp @ ext) = (e, hp3)" for V sa items ext e hp3
    using loop [of V sa items ext] that by simp
  show ?thesis
    by (auto simp: calculate_rt60_h_def compute_surface_areas_h_def Let_def
          split: sum.splits prod.splits option.splits dest: loop')
qed

lemma take_prefix_append:
  "take (length hp) hp' = hp \<Longrightarrow> \<exists>ext. hp' = hp @ ext"
  by (metis append_take_drop_id)

text \<open>
  The function on the store computes what \<^const>\<open>calculate_rt60\<close> computes on the
  contents of its arguments.
\<close>

lemma calculate_rt60_h_refines:
  assumes "load_list hp room_dims = Inr dims"
    and "load_abs_coeff hp abs_coeff = Inr ac"
  shows "returned (calculate_rt60_h hp room_dims abs_coeff) = calculate_rt60 dims ac"
proof (cases "unpack3 dims")
  case (Inl e)
  then show ?thesis
    by (simp add: returned_def calculate_rt60_h_def compute_room_volume_h_def assms(1)
          calculate_rt60_def compute_room_volume_def)
next
  case (Inr t)
  obtain l w h where t: "t = (l, w, h)" by (cases t)
  let ?areas = "[l * w, l * w, l * h, l * h, w * h, w * h]"
  let ?hp2 = "(hp @ [PyList ?areas]) @ [PyResults []]"
  let ?r = "length (hp @ [PyList ?areas])"
  have vol: "compute_room_volume dims = Inr (l * w * h)"
    and areas: "compute_surface_areas dims = Inr ?areas"
    by (simp_all add: compute_room_volume_def compute_surface_areas_def Inr t)
  from assms(2) obtain items where
    d: "load_dict hp abs_coeff = Inr items" and i: "load_items hp items = Inr ac"
    by (auto simp: load_abs_coeff_def split: sum.splits)
  have d2: "load_dict ?hp2 abs_coeff = Inr items"
    using d load_dict_InrD [OF d] by (simp add: load_dict_append del: append_assoc)
  have i2: "load_items ?hp2 items = Inr ac"
    using i by (simp add: load_items_append del: append_assoc)
  have sa: "load_list ?hp2 (length hp) = Inr ?areas"
    by (simp add: load_list_def nth_append)
  have r: "load_results ?hp2 ?r = Inr []"
    by (simp add: load_results_def nth_append)
  have loop: "rt60_loop_h (l * w * h) (length hp) ?r items ?hp2 =
      (None, ?hp2[?r := PyResults (rt60_loop (l * w * h) ?areas ac [])])"
    by (rule rt60_loop_h_refines [OF sa r i2])
  have "calculate_rt60_h hp room_dims abs_coeff =
      (Inr ?r, ?hp2[?r := PyResults (rt60_loop (l * w * h) ?areas ac [])])"
    using loop d2
    by (simp add: calculate_rt60_h_def compute_room_volume_h_def compute_surface_areas_h_def
          assms(1) vol areas Let_def del: append_assoc)
  then show ?thesis
    by (simp add: returned_def load_results_def calculate_rt60_def vol areas)
qed


lemma load_abs_coeff_append:
  assumes "load_abs_coeff hp a = Inr ac"
  shows "load_abs_coeff (hp @ ext) a = Inr ac"
proof -
  from assms obtain items where
    d: "load_dict hp a = Inr items" and i: "load_items hp items = Inr ac"
    by (auto simp: load_abs_coeff_def split: sum.splits)
  show ?thesis
    using d load_dict_InrD [OF d] load_items_append [OF i]
    by (simp add: load_abs_coeff_def load_dict_append)
qed

text \<open>
  Claim C10. Two calls of \<open>calculate_rt60\<close> whose arguments have equal contents, in
  whatever stores and at whatever addresses, return equal results (the same exception, or
  dicts of equal contents). A call leaves every object that existed before it as it was,
  so \<open>room_dims\<close> and \<open>abs_coeff\<close> with its coefficient lists read the same after the
  call as before.
\<close>

theorem calculate_rt60_pure:
  assumes "load_list hp1 rd1 = Inr dims" and "load_abs_coeff hp1 ac1 = Inr ac"
    and "load_list hp2 rd2 = Inr dims" and "load_abs_coeff hp2 ac2 = Inr ac"
  shows "returned (calculate_rt60_h hp1 rd1 ac1) = returned (calculate_rt60_h hp2 rd2 ac2)
    \<and> take (length hp1) (snd (calculate_rt60_h hp1 rd1 ac1)) = hp1
    \<and> load_list (snd (calculate_rt60_h hp1 rd1 ac1)) rd1 = Inr dims
    \<and> load_abs_coeff (snd (calculate_rt60_h hp1 rd1 ac1)) ac1 = Inr ac"
proof -
  have same: "returned (calculate_rt60_h hp1 rd1 ac1) = returned (calculate_rt60_h hp2 rd2 ac2)"
    by (simp only: calculate_rt60_h_refines [OF assms(1,2)] calculate_rt60_h_refines [OF assms(3,4)])
  have frame: "take (length hp1) (snd (calculate_rt60_h hp1 rd1 ac1)) = hp1"
    by (rule calculate_rt60_h_frame)
  then obtain ext where ext: "snd (calculate_rt60_h hp1 rd1 ac1) = hp1 @ ext"
    using take_prefix_append by blast
  have "load_list (hp1 @ ext) rd1 = Inr dims"
    using assms(1) load_list_InrD [OF assms(1)] by (simp add: load_list_append)
  moreover have "load_abs_coeff (hp1 @ ext) ac1 = Inr ac"
    by (rule load_abs_coeff_append [OF assms(2)])
  ultimately show ?thesis
    using same frame by (simp add: ext)
qed

theorem calculate_rt60_pure_witness:
  "load_list [PyList [4, 3, 2], PyList [1/2, 1/2, 1/2, 1/2, 1/2, 1/2], PyDict [(''low'', 1)]] 0
     = Inr [4, 3, 2]
   \<and> load_abs_coeff
       [PyDict [(''low'', 2)], PyList [4, 3, 2], PyList [1/2, 1/2, 1/2, 1/2, 1/2, 1/2]] 0
     = Inr [(''low'', [1/2, 1/2, 1/2, 1/2, 1/2, 1/2])]
   \<and> returned (calculate_rt60_h
         [PyList [4, 3, 2], PyList [1/2, 1/2, 1/2, 1/2, 1/2, 1/2], PyDict [(''low'', 1)]] 0 2)
     = returned (calculate_rt60_h
         [PyDict [(''low'', 2)], PyList [4, 3, 2], PyList [1/2, 1/2, 1/2, 1/2, 1/2, 1/2]] 1 0)
   \<and> take 3 (snd (calculate_rt60_h
         [PyList [4, 3, 2], PyList [1/2, 1/2, 1/2, 1/2, 1/2, 1/2], PyDict [(''low'', 1)]] 0 2))
     = [PyList [4, 3, 2], PyList [1/2, 1/2, 1/2, 1/2, 1/2, 1/2], PyDict [(''low'', 1)]]"
proof -
  let ?cs = "[1/2, 1/2, 1/2, 1/2, 1/2, 1/2 :: real]"
  let ?hp1 = "[PyList [4, 3, 2], PyList ?cs, PyDict [(''low'', 1)]]"
  let ?hp2 = "[PyDict [(''low'', 2)], PyList [4, 3, 2], PyList ?cs]"
  have a: "load_list ?hp1 0 = Inr [4, 3, 2]"
    by (simp add: load_list_def)
  have b: "load_abs_coeff ?hp1 2 = Inr [(''low'', ?cs)]"
    by (simp add: load_abs_coeff_def load_dict_def load_list_def)
  have c: "load_list ?hp2 1 = Inr [4, 3, 2]"
    by (simp add: load_list_def)
  have d: "load_abs_coeff ?hp2 0 = Inr [(''low'', ?cs)]"
    by (simp add: load_abs_coeff_def load_dict_def load_list_def)
  have n: "length ?hp1 = 3" by simp
  show ?thesis
    using calculate_rt60_pure [OF a b c d] a d unfolding n by blast
qed

text \<open>A run on a store of three objects: two objects are allocated, none is changed.\<close>

lemma calculate_rt60_h_example:
  "calculate_rt60_h
     [PyList [4, 3, 2], PyList [1/2, 1/2, 1/2, 1/2, 1/2, 1/2], PyDict [(''low'', 1)]] 0 2
   = (Inr 4, [PyList [4, 3, 2], PyList [1/2, 1/2, 1/2, 1/2, 1/2, 1/2], PyDict [(''low'', 1)],
        PyList [12, 12, 8, 8, 6, 6], PyResults [(''low'', 0.161 * (24 / 26))]])"
  by (simp add: calculate_rt60_h_def compute_room_volume_h_def compute_surface_areas_h_def
        compute_room_volume_def compute_surface_areas_def load_list_def load_dict_def
        load_results_def store_result_def rt60_band_def total_absorption_def Let_def)

section \<open>Structure of the result of \<open>image_source_method\<close>\<close>

lemma validate_None:
  assumes "valid_geometry (cfg_room_dims cfg)"
    and "valid_absorption (cfg_abs_coeff cfg)"
    and "cfg_source_positions cfg \<noteq> []"
    and "cfg_receiver_positions cfg \<noteq> []"
    and "list_all (in_room (cfg_room_dims cfg))
           (cfg_source_positions cfg @ cfg_receiver_positions cfg)"
  shows "validate cfg = None"
  using assms by (simp add: validate_def)

text \<open>
  Claim C8. For a valid configuration (valid geometry and absorption, sources and receivers
  not empty, positions inside the room) \<open>image_source_method\<close> returns a result keyed by
  the band names of \<open>abs_coeff\<close>, in their order; the value of each band is a sequence
  with one response for each receiver, the \<open>i\<close>-th response being that of the \<open>i\<close>-th
  receiver of the configuration.
\<close>

theorem image_source_method_structure:
  assumes "valid_geometry (cfg_room_dims cfg)"
    and "valid_absorption (cfg_abs_coeff cfg)"
    and "cfg_source_positions cfg \<noteq> []"
    and "cfg_receiver_positions cfg \<noteq> []"
    and "list_all (in_room (cfg_room_dims cfg))
           (cfg_source_positions cfg @ cfg_receiver_positions cfg)"
  shows "\<exists>res. image_source_method pipeline buffer_length cfg enhanced = Inr res
     \<and> map fst res = map fst (cfg_abs_coeff cfg)
     \<and> (\<forall>(band, responses) \<in> set res.
           length responses = length (cfg_receiver_positions cfg)
           \<and> (\<forall>i < length responses.
                 responses ! i =
                   receiver_response pipeline buffer_length cfg enhanced band
                     (cfg_receiver_positions cfg ! i)))"
proof -
  let ?res = "map (\<lambda>(band, coeffs).
                 (band, map (receiver_response pipeline buffer_length cfg enhanced band)
                          (cfg_receiver_positions cfg)))
              (cfg_abs_coeff cfg)"
  have "image_source_method pipeline buffer_length cfg enhanced = Inr ?res"
    by (simp add: image_source_method_def validate_None [OF assms])
  moreover have "map fst ?res = map fst (cfg_abs_coeff cfg)"
    by (simp add: case_prod_beta comp_def)
  moreover have "\<forall>(band, responses) \<in> set ?res.
           length responses = length (cfg_receiver_positions cfg)
           \<and> (\<forall>i < length responses.
                 responses ! i =
                   receiver_response pipeline buffer_length cfg enhanced band
                     (cfg_receiver_positions cfg ! i))"
    by auto
  ultimately show ?thesis by blast
qed

theorem image_source_method_structure_witness:
  "validate
     \<lparr>cfg_room_dims = (4, 3, 2), cfg_source_positions = [(1, 1, 1)],
      cfg_receiver_positions = [(2, 1, 1), (3, 2, 1)],
      cfg_abs_coeff = [(''low'', [0, 0, 0, 0, 0, 0]), (''mid'', [1/2, 1/2, 1/2, 1/2, 1/2, 1/2]),
                       (''high'', [1, 1, 1, 1, 1, 1])],
      cfg_max_order = 1\<rparr> = None
   \<and> (\<exists>res. image_source_method (\<lambda>cfg enhanced (sx, sy, sz) (rx, ry, rz) band. [sx, rx]) 2
         \<lparr>cfg_room_dims = (4, 3, 2), cfg_source_positions = [(1, 1, 1)],
          cfg_receiver_positions = [(2, 1, 1), (3, 2, 1)],
          cfg_abs_coeff = [(''low'', [0, 0, 0, 0, 0, 0]), (''mid'', [1/2, 1/2, 1/2, 1/2, 1/2, 1/2]),
                           (''high'', [1, 1, 1, 1, 1, 1])],
          cfg_max_order = 1\<rparr> True = Inr res
      \<and> map fst res = [''low'', ''mid'', ''high'']
      \<and> (\<forall>(band, responses) \<in> set res. length responses = 2))"
proof -
  let ?cfg = "\<lparr>cfg_room_dims = (4, 3, 2), cfg_source_positions = [(1, 1, 1)],
      cfg_receiver_positions = [(2, 1, 1), (3, 2, 1)],
      cfg_abs_coeff = [(''low'', [0, 0, 0, 0, 0, 0]), (''mid'', [1/2, 1/2, 1/2, 1/2, 1/2, 1/2]),
                       (''high'', [1, 1, 1, 1, 1, 1])],
      cfg_max_order = 1\<rparr>"
  have g: "valid_geometry (cfg_room_dims ?cfg)" by (simp add: valid_geometry_def)
  have a: "valid_absorption (cfg_abs_coeff ?cfg)" by (simp add: valid_absorption_def)
  have s: "cfg_source_positions ?cfg \<noteq> []" by simp
  have r: "cfg_receiver_positions ?cfg \<noteq> []" by simp
  have b: "list_all (in_room (cfg_room_dims ?cfg))
             (cfg_source_positions ?cfg @ cfg_receiver_positions ?cfg)"
    by (simp add: in_room_def)
  have v: "validate ?cfg = None"
    using g a s r b by (simp add: validate_def)
  from image_source_method_structure [OF g a s r b,
      of "\<lambda>cfg enhanced (sx, sy, sz) (rx, ry, rz) band. [sx, rx]" 2 True]
  obtain res where
    "image_source_method (\<lambda>cfg enhanced (sx, sy, sz) (rx, ry, rz) band. [sx, rx]) 2 ?cfg True
       = Inr res"
    "map fst res = map fst (cfg_abs_coeff ?cfg)"
    "\<forall>(band, responses) \<in> set res. length responses = length (cfg_receiver_positions ?cfg)"
    by fastforce
  then show ?thesis using v by (intro conjI exI [of _ res]) (auto simp: numeral_2_eq_2)
qed

text \<open>
  A run with two sources and two receivers; the stand-in pipeline writes the x coordinates
  of source and receiver into a buffer of two samples.
\<close>

lemma image_source_method_example:
  "image_source_method (\<lambda>cfg enhanced (sx, sy, sz) (rx, ry, rz) band. [sx, rx]) 2
     \<lparr>cfg_room_dims = (4, 3, 2), cfg_source_positions = [(1, 1, 1), (1, 2, 1)],
      cfg_receiver_positions = [(2, 1, 1), (3, 2, 1)],
      cfg_abs_coeff = [(''low'', [0, 0, 0, 0, 0, 0])],
      cfg_max_order = 1\<rparr> True
   = Inr [(''low'', [[2, 4], [2, 6]])]"
  by (simp add: image_source_method_def validate_def valid_geometry_def valid_absorption_def
        in_room_def receiver_response_def accumulate_def numeral_2_eq_2)

lemma image_source_method_empty:
  "cfg_source_positions cfg = [] \<or> cfg_receiver_positions cfg = [] \<Longrightarrow>
   valid_geometry (cfg_room_dims cfg) \<Longrightarrow> valid_absorption (cfg_abs_coeff cfg) \<Longrightarrow>
   image_source_method pipeline buffer_length cfg enhanced = Inl EmptyConfiguration"
  by (auto simp: image_source_method_def validate_def)

end
